theory Spec2Isabelle
  imports Main "HOL-Library.Code_Target_Nat"
begin

section \<open>JavaScript strings\<close>

text \<open>
  A JavaScript string is a sequence of UTF-16 code units. The extension works on code
  units throughout (its regular expressions carry no \<open>u\<close> flag), so a string is modelled
  as the list of its code units, each a natural number below 65536. \<open>js\<close> embeds an ASCII
  literal.
\<close>

type_synonym jsstring = "nat list"

definition js :: "string \<Rightarrow> jsstring" where
  "js s = map of_char s"

subsection \<open>Text Normalizer\<close>

text \<open>
  \<^verbatim>\<open>normalizeCurrencySymbols(text)\<close> (popup.ts 176-179, background script 71-73) returns
  \<^verbatim>\<open>text.replace(re, rupee)\<close>, where \<^verbatim>\<open>re\<close> is a global regular expression for the three
  code units U+00E2, U+0082, U+00B9 (a mis-decoded rupee sign) and \<^verbatim>\<open>rupee\<close> is the one
  code unit U+20B9. A global replace scans left to right; at a position where the three
  code units stand it emits U+20B9 and continues after them, otherwise it copies one code
  unit and moves on by one.
\<close>

fun normalizeCurrencySymbols :: "jsstring \<Rightarrow> jsstring" where
  "normalizeCurrencySymbols (a # b # c # rest) =
     (if a = 0xE2 \<and> b = 0x82 \<and> c = 0xB9
      then 0x20B9 # normalizeCurrencySymbols rest
      else a # normalizeCurrencySymbols (b # c # rest))"
| "normalizeCurrencySymbols text = text"

subsection \<open>Character classes and trimming\<close>

text \<open>
  \<open>isWhiteSpace\<close> is the set that both \<^verbatim>\<open>String.prototype.trim\<close> and the regular
  expression class \<^verbatim>\<open>\s\<close> use: the WhiteSpace and LineTerminator code points of ECMAScript
  (TAB, LF, VT, FF, CR, SP, NBSP, the Unicode space separators, LS, PS and U+FEFF).
  \<open>isWordChar\<close> is \<^verbatim>\<open>\w\<close>: letters, digits and underscore of ASCII.
\<close>

definition isWhiteSpace :: "nat \<Rightarrow> bool" where
  "isWhiteSpace c \<longleftrightarrow>
     (9 \<le> c \<and> c \<le> 13) \<or> c = 0x20 \<or> c = 0xA0 \<or> c = 0x1680 \<or>
     (0x2000 \<le> c \<and> c \<le> 0x200A) \<or> c = 0x2028 \<or> c = 0x2029 \<or>
     c = 0x202F \<or> c = 0x205F \<or> c = 0x3000 \<or> c = 0xFEFF"

definition isWordChar :: "nat \<Rightarrow> bool" where
  "isWordChar c \<longleftrightarrow>
     (48 \<le> c \<and> c \<le> 57) \<or> (65 \<le> c \<and> c \<le> 90) \<or> c = 95 \<or> (97 \<le> c \<and> c \<le> 122)"

definition trim :: "jsstring \<Rightarrow> jsstring" where
  "trim s = rev (dropWhile isWhiteSpace (rev (dropWhile isWhiteSpace s)))"

subsection \<open>Case-insensitive matching of an ASCII pattern\<close>

text \<open>
  Under the \<^verbatim>\<open>i\<close> flag (and no \<^verbatim>\<open>u\<close> flag) two code units match when their upper-case
  forms agree, and a code unit from 128 on is never folded onto an ASCII one. For the
  ASCII patterns of this program that is comparison after folding \<open>a\<close>..\<open>z\<close> onto
  \<open>A\<close>..\<open>Z\<close>.
\<close>

definition upperAscii :: "nat \<Rightarrow> nat" where
  "upperAscii c = (if 97 \<le> c \<and> c \<le> 122 then c - 32 else c)"

fun startsWithCI :: "jsstring \<Rightarrow> jsstring \<Rightarrow> bool" where
  "startsWithCI [] text = True"
| "startsWithCI (p # ps) [] = False"
| "startsWithCI (p # ps) (c # cs) = (upperAscii p = upperAscii c \<and> startsWithCI ps cs)"

text \<open>Index of the leftmost match of the pattern, as \<^verbatim>\<open>match\<close>, \<^verbatim>\<open>search\<close> and
  \<^verbatim>\<open>test\<close> find it; \<open>None\<close> is JavaScript's \<^verbatim>\<open>null\<close> / \<^verbatim>\<open>-1\<close> / \<^verbatim>\<open>false\<close>.\<close>

fun searchCI :: "jsstring \<Rightarrow> jsstring \<Rightarrow> nat option" where
  "searchCI pat [] = (if startsWithCI pat [] then Some 0 else None)"
| "searchCI pat (c # cs) =
     (if startsWithCI pat (c # cs) then Some 0 else map_option Suc (searchCI pat cs))"

definition testCI :: "jsstring \<Rightarrow> jsstring \<Rightarrow> bool" where
  "testCI pat text \<longleftrightarrow> searchCI pat text \<noteq> None"

text \<open>
  The assertion \<^verbatim>\<open>\b\<close> holds at a position when exactly one of the code unit before
  it and the code unit at it is a word character; outside the string counts as a
  non-word character. \<open>prev\<close> says whether the code unit before the position is one.
\<close>

fun wordBoundary :: "bool \<Rightarrow> jsstring \<Rightarrow> bool" where
  "wordBoundary prev [] = prev"
| "wordBoundary prev (c # cs) = (prev \<noteq> isWordChar c)"

text \<open>\<^verbatim>\<open>search(/\bnote\b/i)\<close>: the leftmost position with a boundary, then the four letters,
  then a boundary again (the last letter matched is a word character).\<close>

fun searchNote :: "bool \<Rightarrow> jsstring \<Rightarrow> nat option" where
  "searchNote prev [] = None"
| "searchNote prev (c # cs) =
     (if wordBoundary prev (c # cs) \<and> startsWithCI (js ''note'') (c # cs)
         \<and> wordBoundary True (drop 4 (c # cs))
      then Some 0
      else map_option Suc (searchNote (isWordChar c) cs))"

subsection \<open>Heuristic Summary Extractor\<close>

text \<open>
  \<^verbatim>\<open>emailText.match(/summary[\s:]*\n*/i)\<close>: the leftmost \<open>summary\<close>, then greedily every
  following code unit that is white space or a colon, then every following line feed
  (there is none left, but the pattern asks). The result is the pair of
  \<^verbatim>\<open>markerMatch.index\<close> and \<^verbatim>\<open>markerMatch[0].length\<close>.
\<close>

definition markerMatch :: "jsstring \<Rightarrow> (nat \<times> nat) option" where
  "markerMatch emailText =
     (case searchCI (js ''summary'') emailText of
        None \<Rightarrow> None
      | Some index \<Rightarrow>
          let after = drop (index + 7) emailText;
              sep = takeWhile (\<lambda>c. isWhiteSpace c \<or> c = 58) after;
              nls = takeWhile (\<lambda>c. c = 10) (drop (length sep) after)
          in Some (index, 7 + length sep + length nls))"

text \<open>\<^verbatim>\<open>split("\n")\<close>: the pieces between line feeds; the empty string gives one empty piece.\<close>

fun split_lf :: "jsstring \<Rightarrow> jsstring list" where
  "split_lf [] = [[]]"
| "split_lf (c # cs) =
     (if c = 10 then [] # split_lf cs
      else (case split_lf cs of [] \<Rightarrow> [[c]] | l # ls \<Rightarrow> (c # l) # ls))"

text \<open>The table \<^verbatim>\<open>expectedKeys\<close> and \<^verbatim>\<open>expectedKeys.find(exp => exp.pattern.test(line))\<close>:
  the key of the first entry one of whose alternatives occurs in the line.\<close>

definition expectedKeys :: "(jsstring list \<times> jsstring) list" where
  "expectedKeys =
     [([js ''total amount due''], js ''Total Amount Due''),
      ([js ''rewards earned''], js ''Rewards Earned''),
      ([js ''payment due date'', js ''bill due date''], js ''Payment Due Date'')]"

fun findExpected :: "(jsstring list \<times> jsstring) list \<Rightarrow> jsstring \<Rightarrow> jsstring option" where
  "findExpected [] line = None"
| "findExpected ((alts, key) # exps) line =
     (if \<exists>pat \<in> set alts. testCI pat line then Some key else findExpected exps line)"

text \<open>
  The result object \<^verbatim>\<open>summary\<close> is an association list in insertion order;
  \<^verbatim>\<open>summary[key] = v\<close> overwrites the value of a key already there and appends a new key.
\<close>

type_synonym summaryDict = "(jsstring \<times> jsstring) list"

fun assign :: "jsstring \<Rightarrow> jsstring \<Rightarrow> summaryDict \<Rightarrow> summaryDict" where
  "assign k v [] = [(k, v)]"
| "assign k v ((k', v') # kvs) = (if k' = k then (k, v) # kvs else (k', v') # assign k v kvs)"

text \<open>
  The loop over \<^verbatim>\<open>lines\<close> (popup.ts 214-230). \<open>scanLines\<close> receives the lines from
  index \<open>i\<close> on. At a label line the inner loop looks, among the lines after it, for the
  first one of positive length; when there is one it is the value and \<open>i\<close> jumps onto
  it, so the scan resumes behind it; when there is none the value is the empty string
  and the scan resumes at the next line.
\<close>

function scanLines :: "jsstring list \<Rightarrow> summaryDict \<Rightarrow> summaryDict" where
  "scanLines [] summary = summary"
| "scanLines (line # rest) summary =
     (case findExpected expectedKeys line of
        None \<Rightarrow> scanLines rest summary
      | Some key \<Rightarrow>
          (case dropWhile (\<lambda>l. \<not> length l > 0) rest of
             [] \<Rightarrow> scanLines rest (assign key (normalizeCurrencySymbols []) summary)
           | v # rest' \<Rightarrow> scanLines rest' (assign key (normalizeCurrencySymbols v) summary)))"
  by pat_completeness auto
termination
proof (relation "measure (\<lambda>(lines, summary). length lines)")
  fix line :: jsstring and rest rest' :: "jsstring list" and v :: jsstring
  assume "dropWhile (\<lambda>l. \<not> length l > 0) rest = v # rest'"
  then have "length (v # rest') \<le> length rest"
    using length_dropWhile_le [of "\<lambda>l. \<not> length l > 0" rest] by simp
  then show "((rest', assign key (normalizeCurrencySymbols v) summary), (line # rest, summary))
               \<in> measure (\<lambda>(lines, summary). length lines)" for key summary
    by simp
qed auto

text \<open>Lines 201-232 of popup.ts: from the summary section to the result.\<close>

definition summaryLines :: "jsstring \<Rightarrow> jsstring list" where
  "summaryLines summaryPart = filter (\<lambda>line. length line > 0) (map trim (split_lf summaryPart))"

definition extractFields :: "jsstring \<Rightarrow> summaryDict" where
  "extractFields summaryPart = scanLines (summaryLines summaryPart) []"

text \<open>\<^verbatim>\<open>parseBankSummary\<close> (popup.ts 181-233, background script 131-167).\<close>

definition parseBankSummary :: "jsstring \<Rightarrow> summaryDict" where
  "parseBankSummary emailText =
     (case markerMatch emailText of
        None \<Rightarrow> []
      | Some (index, len) \<Rightarrow>
          let startIndex = index + len;
              summaryPart = trim (drop startIndex emailText);
              summaryPart' = (case searchNote False summaryPart of
                                None \<Rightarrow> summaryPart
                              | Some noteIndex \<Rightarrow> trim (take noteIndex summaryPart))
          in extractFields summaryPart')"

text \<open>\<^verbatim>\<open>lines.join("\n")\<close>, used to write multi-line texts down.\<close>

fun joinLF :: "jsstring list \<Rightarrow> jsstring" where
  "joinLF [] = []"
| "joinLF [l] = l"
| "joinLF (l # ls) = l @ 10 # joinLF ls"

text \<open>
  What it means for a text to contain a case-insensitive occurrence of a token,
  independently of how the program searches: at some offset the next code units, folded to
  upper case, are the token folded to upper case.
\<close>

definition containsCI :: "jsstring \<Rightarrow> jsstring \<Rightarrow> bool" where
  "containsCI token text \<longleftrightarrow>
     list_ex (\<lambda>i. map upperAscii (take (length token) (drop i text)) = map upperAscii token)
       [0 ..< Suc (length text)]"

section \<open>Numbers\<close>

text \<open>
  A JavaScript number is an IEEE 754 binary64 value: not-a-number, an infinity, or a
  finite value, kept here as \<open>Finite neg m e\<close> with its sign, its integer significand \<open>m\<close>
  and its binary exponent \<open>e\<close>: the value is \<open>m * 2 ^ e\<close>, negated when \<open>neg\<close> holds. The
  significand is below \<open>2 ^ 53\<close>, the exponent between \<open>-1074\<close> and \<open>971\<close>, and the
  significand is at least \<open>2 ^ 52\<close> unless the exponent is \<open>-1074\<close>; zero is \<open>m = 0\<close>,
  \<open>e = 0\<close>. Every finite value has one such form, so equality of numbers is equality of
  these values (\<open>NaN\<close> is never compared as a number here, only its text).
\<close>

datatype number = NaN | Infinity bool | Finite bool nat int

fun bitLength :: "nat \<Rightarrow> nat" where
  "bitLength n = (if n = 0 then 0 else Suc (bitLength (n div 2)))"

text \<open>The fraction \<open>num / den / 2 ^ e\<close> as a pair of naturals, and the two roundings of a
  fraction to an integer: to the nearest with ties to the even one, and to the nearest with
  ties upwards.\<close>

definition scaled :: "nat \<Rightarrow> nat \<Rightarrow> int \<Rightarrow> nat \<times> nat" where
  "scaled num den e = (if 0 \<le> e then (num, den * 2 ^ nat e) else (num * 2 ^ nat (- e), den))"

definition roundHalfEven :: "nat \<times> nat \<Rightarrow> nat" where
  "roundHalfEven f =
     (let q = fst f div snd f; r = fst f mod snd f
      in if snd f < 2 * r \<or> (2 * r = snd f \<and> odd q) then q + 1 else q)"

definition roundHalfUp :: "nat \<times> nat \<Rightarrow> nat" where
  "roundHalfUp f = (2 * fst f + snd f) div (2 * snd f)"

text \<open>
  The number value of the non-negative rational \<open>num / den\<close> with the given sign: the
  nearest binary64 value, ties to the even significand; what rounds to \<open>2 ^ 1024\<close> or
  more is an infinity, and what rounds to nothing is a zero of that sign.
\<close>

definition toBinary64 :: "bool \<Rightarrow> nat \<Rightarrow> nat \<Rightarrow> number" where
  "toBinary64 neg num den =
     (if num = 0 then Finite neg 0 0
      else
        let e0 = int (bitLength num) - int (bitLength den) - 53;
            e1 = (if 2 ^ 53 \<le> fst (scaled num den e0) div snd (scaled num den e0)
                  then e0 + 1 else e0);
            e = max e1 (- 1074);
            m = roundHalfEven (scaled num den e)
        in if m = 0 then Finite neg 0 0
           else if m = 2 ^ 53 then (if 971 < e + 1 then Infinity neg else Finite neg (2 ^ 52) (e + 1))
           else if 971 < e then Infinity neg
           else Finite neg m e)"

text \<open>The value \<open>digits * 10 ^ k\<close> of a decimal literal.\<close>

definition decimalValue :: "bool \<Rightarrow> nat \<Rightarrow> int \<Rightarrow> number" where
  "decimalValue neg digits k =
     (if 0 \<le> k then toBinary64 neg (digits * 10 ^ nat k) 1
      else toBinary64 neg digits (10 ^ nat (- k)))"

definition isDigit :: "nat \<Rightarrow> bool" where
  "isDigit c \<longleftrightarrow> 48 \<le> c \<and> c \<le> 57"

definition digitsValue :: "jsstring \<Rightarrow> nat" where
  "digitsValue ds = foldl (\<lambda>a c. 10 * a + (c - 48)) 0 ds"

text \<open>
  An optional sign in front of the rest, and the exponent part of a decimal literal:
  \<open>e\<close> or \<open>E\<close>, an optional sign and at least one digit; anything else is no exponent part
  (the value 0) and is left unread.
\<close>

definition signOf :: "jsstring \<Rightarrow> bool \<times> jsstring" where
  "signOf s = (case s of [] \<Rightarrow> (False, [])
               | c # r \<Rightarrow> if c = 45 then (True, r) else if c = 43 then (False, r) else (False, s))"

definition exponentPart :: "jsstring \<Rightarrow> int" where
  "exponentPart s =
     (case s of [] \<Rightarrow> 0
      | c # r \<Rightarrow>
          if c = 101 \<or> c = 69
          then (let ds = takeWhile isDigit (snd (signOf r))
                in if ds = [] then 0
                   else if fst (signOf r) then - int (digitsValue ds) else int (digitsValue ds))
          else 0)"

text \<open>
  \<^verbatim>\<open>parseFloat(string)\<close>: leading white space is dropped; the longest prefix that is a
  \<^verbatim>\<open>StrDecimalLiteral\<close> (a sign, then \<open>Infinity\<close> or digits with an optional fraction and an
  optional exponent part, at least one digit before or after the point) gives the value;
  when no prefix is one, the result is \<open>NaN\<close>. What follows the prefix is ignored.
\<close>

definition parseFloat :: "jsstring \<Rightarrow> number" where
  "parseFloat string =
     (let trimmed = dropWhile isWhiteSpace string;
          neg = fst (signOf trimmed);
          u = snd (signOf trimmed)
      in if take 8 u = js ''Infinity'' then Infinity neg
         else
           let ip = takeWhile isDigit u;
               r1 = dropWhile isDigit u;
               fp = (case r1 of [] \<Rightarrow> [] | c # r \<Rightarrow> if c = 46 then takeWhile isDigit r else []);
               r2 = (case r1 of [] \<Rightarrow> [] | c # r \<Rightarrow> if c = 46 then dropWhile isDigit r else r1)
           in if ip = [] \<and> fp = [] then NaN
              else decimalValue neg (digitsValue (ip @ fp)) (exponentPart r2 - int (length fp)))"

text \<open>
  The result of \<^verbatim>\<open>x.toFixed(f)\<close>. Below \<open>10 ^ 21\<close> it is the decimal text of the integer
  nearest to \<open>x * 10 ^ f\<close> (the larger one at a tie, taken on the absolute value) with a
  point before the last \<open>f\<close> digits and a minus sign for a negative \<open>x\<close>. From \<open>10 ^ 21\<close> on
  it is the exponent-notation text of \<open>x\<close>; that text is not spelled out: it is kept as
  \<open>ExponentForm x\<close>, which is faithful for comparison, since different numbers have
  different texts and no such text equals a fixed-point one.
\<close>

datatype numberText = Text jsstring | ExponentForm number

fun decimalDigits :: "nat \<Rightarrow> jsstring" where
  "decimalDigits n = (if n < 10 then [48 + n] else decimalDigits (n div 10) @ [48 + n mod 10])"

definition toFixed :: "nat \<Rightarrow> number \<Rightarrow> numberText" where
  "toFixed f x =
     (case x of
        NaN \<Rightarrow> Text (js ''NaN'')
      | Infinity neg \<Rightarrow> Text (if neg then js ''-Infinity'' else js ''Infinity'')
      | Finite neg m e \<Rightarrow>
          if 10 ^ 21 \<le> fst (scaled m 1 (- e)) div snd (scaled m 1 (- e)) then ExponentForm x
          else
            let s = (if neg \<and> m \<noteq> 0 then js ''-'' else []);
                n = roundHalfUp (scaled (m * 10 ^ f) 1 (- e));
                ds = decimalDigits n;
                padded = (if f \<noteq> 0 \<and> length ds \<le> f then replicate (f + 1 - length ds) 48 @ ds else ds);
                k = length padded
            in Text (if f \<noteq> 0 then s @ take (k - f) padded @ js ''.'' @ drop (k - f) padded
                     else s @ padded))"

text \<open>\<^verbatim>\<open>.replace(/[,]/g, '')\<close> on a string, and on the text of a number (which has no comma).\<close>

definition stripCommas :: "jsstring \<Rightarrow> jsstring" where
  "stripCommas s = filter (\<lambda>c. c \<noteq> 44) s"

fun stripCommasText :: "numberText \<Rightarrow> numberText" where
  "stripCommasText (Text s) = Text (stripCommas s)"
| "stripCommasText (ExponentForm x) = ExponentForm x"

text \<open>\<^verbatim>\<open>ToString\<close> of a value that is a string or \<^verbatim>\<open>undefined\<close> (\<open>None\<close>).\<close>

definition toStringValue :: "jsstring option \<Rightarrow> jsstring" where
  "toStringValue v = (case v of None \<Rightarrow> js ''undefined'' | Some s \<Rightarrow> s)"

section \<open>Record Store\<close>

text \<open>
  Errors of the runtime that the operations below can meet: a \<^verbatim>\<open>TypeError\<close> (a method called
  on \<^verbatim>\<open>undefined\<close>), a \<^verbatim>\<open>SyntaxError\<close> (\<^verbatim>\<open>JSON.parse\<close>), the database failing to open and a
  request on it failing.
\<close>

datatype error = TypeError | SyntaxError | OpenError | RequestError

text \<open>
  What the database does when asked, given from outside: it opens and answers, or
  \<^verbatim>\<open>indexedDB.open\<close> fails, or the \<^verbatim>\<open>getAll\<close> request fails.
\<close>

datatype dbOutcome = DbOk | OpenFails | GetAllFails

text \<open>
  \<^verbatim>\<open>PaymentData\<close> is the object handed to the insert operation, with the properties
  \<^verbatim>\<open>"Due Date"\<close>, \<^verbatim>\<open>"Total Amount Due"\<close> and \<^verbatim>\<open>"Bank Name"\<close>. It comes out of \<^verbatim>\<open>JSON.parse\<close>,
  so a property may be missing: \<open>None\<close> is \<^verbatim>\<open>undefined\<close>. A property that is there is a
  string, as the interface \<^verbatim>\<open>PaymentData\<close> declares it. \<^verbatim>\<open>PaymentSummary\<close> is a stored record;
  \<open>id'\<close> is its key \<^verbatim>\<open>id\<close>.
\<close>

record PaymentData =
  Due_Date :: "jsstring option"
  Total_Amount_Due :: "jsstring option"
  Bank_Name :: "jsstring option"

record PaymentSummary =
  id' :: nat
  DueDate :: "jsstring option"
  totalAmountDue :: "jsstring option"
  BankName :: "jsstring option"
  paymentStatus :: jsstring
  summaryTimestamp :: jsstring

text \<open>
  The object store \<^verbatim>\<open>summaries\<close> (\<^verbatim>\<open>keyPath: "id", autoIncrement: true\<close>): its records in
  key order, which is the order of \<^verbatim>\<open>getAll\<close>, and the next number of its key generator,
  which starts at 1.
\<close>

record objectStore =
  records :: "PaymentSummary list"
  keyGenerator :: nat

definition emptyStore :: objectStore where
  "emptyStore = \<lparr>records = [], keyGenerator = 1\<rparr>"

text \<open>
  \<^verbatim>\<open>store.add(summary)\<close> for an object without \<^verbatim>\<open>id\<close>: the key generator supplies the key,
  which is above every key in use, so the record goes last.
\<close>

definition add :: "jsstring option \<Rightarrow> jsstring option \<Rightarrow> jsstring option \<Rightarrow> jsstring \<Rightarrow> jsstring
    \<Rightarrow> objectStore \<Rightarrow> objectStore" where
  "add due amountDue bank status stamp store =
     \<lparr>records = records store @
        [\<lparr>id' = keyGenerator store, DueDate = due, totalAmountDue = amountDue, BankName = bank,
          paymentStatus = status, summaryTimestamp = stamp\<rparr>],
      keyGenerator = keyGenerator store + 1\<rparr>"

text \<open>
  \<^verbatim>\<open>store.put(summary)\<close> for an object with \<^verbatim>\<open>id\<close>: the record under that key is replaced;
  were there none, the object would be stored under the key, and the key generator moves
  past it.
\<close>

fun putRecord :: "PaymentSummary \<Rightarrow> PaymentSummary list \<Rightarrow> PaymentSummary list" where
  "putRecord x [] = [x]"
| "putRecord x (r # rs) =
     (if id' r = id' x then x # rs
      else if id' x < id' r then x # r # rs
      else r # putRecord x rs)"

definition put :: "PaymentSummary \<Rightarrow> objectStore \<Rightarrow> objectStore" where
  "put x store =
     \<lparr>records = putRecord x (records store),
      keyGenerator = max (keyGenerator store) (id' x + 1)\<rparr>"

subsection \<open>Insert with duplicate check (popup.ts 97-134, background script 396-442)\<close>

text \<open>
  \<^verbatim>\<open>existingSummaries.some(summary => ...)\<close>: the records are visited in order until one
  has the same comma-stripped amount and the same due date; \<^verbatim>\<open>.replace\<close> on a stored
  amount that is \<^verbatim>\<open>undefined\<close> throws.
\<close>

fun someDuplicate :: "jsstring \<Rightarrow> jsstring option \<Rightarrow> PaymentSummary list \<Rightarrow> error + bool" where
  "someDuplicate newTotal newDue [] = Inr False"
| "someDuplicate newTotal newDue (summary # rest) =
     (case totalAmountDue summary of
        None \<Rightarrow> Inl TypeError
      | Some existing \<Rightarrow>
          if stripCommas existing = newTotal \<and> DueDate summary = newDue then Inr True
          else someDuplicate newTotal newDue rest)"

text \<open>
  The result is the store after the call, or the error that ended it; on an error nothing
  has been written. \<open>now\<close> is \<^verbatim>\<open>new Date().toISOString()\<close>.
\<close>

definition savePaymentSummaryToIndexedDB ::
    "dbOutcome \<Rightarrow> PaymentData \<Rightarrow> jsstring \<Rightarrow> objectStore \<Rightarrow> error + objectStore" where
  "savePaymentSummaryToIndexedDB db paymentData now store =
     (if db = OpenFails then Inl OpenError
      else case Total_Amount_Due paymentData of
        None \<Rightarrow> Inl TypeError
      | Some rawTotal \<Rightarrow>
          let newTotal = stripCommas rawTotal;
              newDue = Due_Date paymentData
          in if db = GetAllFails then Inl RequestError
             else case someDuplicate newTotal newDue (records store) of
               Inl e \<Rightarrow> Inl e
             | Inr True \<Rightarrow> Inr store
             | Inr False \<Rightarrow>
                 (case Bank_Name paymentData of
                    None \<Rightarrow> Inl TypeError
                  | Some bank \<Rightarrow>
                      Inr (add newDue (Some newTotal) (Some (trim bank)) (js ''unpaid'') now store)))"

subsection \<open>Insert without duplicate check (background.ts 381-397)\<close>

definition savePaymentSummaryToIndexedDB_background ::
    "dbOutcome \<Rightarrow> PaymentData \<Rightarrow> jsstring \<Rightarrow> objectStore \<Rightarrow> error + objectStore" where
  "savePaymentSummaryToIndexedDB_background db paymentData now store =
     (if db = OpenFails then Inl OpenError
      else Inr (add (Due_Date paymentData) (Total_Amount_Due paymentData) (Bank_Name paymentData)
                  (js ''unpaid'') now store))"

text \<open>A call leaves the store as it was when it ends in an error.\<close>

definition storeAfter :: "objectStore \<Rightarrow> error + objectStore \<Rightarrow> objectStore" where
  "storeAfter store result = (case result of Inl e \<Rightarrow> store | Inr store' \<Rightarrow> store')"

subsection \<open>Reconciliation (background script 584-612)\<close>

text \<open>
  \<^verbatim>\<open>updateMatchingRecord(amount)\<close>: every record of the \<^verbatim>\<open>getAll\<close> snapshot is visited; both
  amounts go through \<^verbatim>\<open>parseFloat(...).toFixed(2).replace(/[,]/g, '')\<close>; a record whose text
  equals that of the paid amount and whose status is not \<open>paid\<close> is written back with status
  \<open>paid\<close>. A database that fails to open or to answer is logged and nothing is written.
\<close>

definition amountText :: "jsstring \<Rightarrow> numberText" where
  "amountText s = stripCommasText (toFixed 2 (parseFloat s))"

definition markPaid :: "jsstring \<Rightarrow> PaymentSummary \<Rightarrow> objectStore \<Rightarrow> objectStore" where
  "markPaid amount summary store =
     (let existingTotal = amountText (toStringValue (totalAmountDue summary));
          newTotal = amountText amount
      in if existingTotal = newTotal \<and> paymentStatus summary \<noteq> js ''paid''
         then put (summary\<lparr>paymentStatus := js ''paid''\<rparr>) store
         else store)"

definition updateMatchingRecord :: "dbOutcome \<Rightarrow> jsstring \<Rightarrow> objectStore \<Rightarrow> objectStore" where
  "updateMatchingRecord db amount store =
     (if db = DbOk then fold (markPaid amount) (records store) store else store)"

subsection \<open>Reachable stores\<close>

text \<open>
  The operations of the system that write to the store: the two insert operations and the
  reconciliation. A store is reachable when such operations lead to it from the empty one.
\<close>

inductive step :: "objectStore \<Rightarrow> objectStore \<Rightarrow> bool" where
  insert: "step s (storeAfter s (savePaymentSummaryToIndexedDB db paymentData now s))"
| insert_background:
    "step s (storeAfter s (savePaymentSummaryToIndexedDB_background db paymentData now s))"
| update: "step s (updateMatchingRecord db amount s)"

inductive reachable :: "objectStore \<Rightarrow> bool" where
  initial: "reachable emptyStore"
| after: "reachable s \<Longrightarrow> step s s' \<Longrightarrow> reachable s'"

text \<open>A run of insert calls with duplicate check: each call with its database outcome, its
  payment data and its time stamp.\<close>

fun insertAll :: "(dbOutcome \<times> PaymentData \<times> jsstring) list \<Rightarrow> objectStore \<Rightarrow> objectStore" where
  "insertAll [] store = store"
| "insertAll ((db, paymentData, now) # calls) store =
     insertAll calls (storeAfter store (savePaymentSummaryToIndexedDB db paymentData now store))"

text \<open>The same for the insert operation of background.ts.\<close>

fun insertAll_background ::
    "(dbOutcome \<times> PaymentData \<times> jsstring) list \<Rightarrow> objectStore \<Rightarrow> objectStore" where
  "insertAll_background [] store = store"
| "insertAll_background ((db, paymentData, now) # calls) store =
     insertAll_background calls
       (storeAfter store (savePaymentSummaryToIndexedDB_background db paymentData now store))"

text \<open>The dedup key of a stored record: its comma-stripped amount and its due date.\<close>

definition dedupKey :: "PaymentSummary \<Rightarrow> jsstring option \<times> jsstring option" where
  "dedupKey r = (map_option stripCommas (totalAmountDue r), DueDate r)"

text \<open>
  Two invariants. \<open>storeInv\<close>: the keys of the records are strictly increasing and below
  the key generator. \<open>dedupInv\<close>: every stored amount is a string and no two records have
  the same dedup key.
\<close>

definition storeInv :: "objectStore \<Rightarrow> bool" where
  "storeInv s \<longleftrightarrow>
     sorted_wrt (<) (map id' (records s)) \<and> (\<forall>r \<in> set (records s). id' r < keyGenerator s)"

definition dedupInv :: "objectStore \<Rightarrow> bool" where
  "dedupInv s \<longleftrightarrow>
     (\<forall>r \<in> set (records s). totalAmountDue r \<noteq> None) \<and> distinct (map dedupKey (records s))"

subsection \<open>Example data\<close>

text \<open>A statement record as the model returns it, a store in which it has been inserted and
  then paid, a later store, and the paid record.\<close>

definition exampleData :: PaymentData where
  "exampleData = \<lparr>Due_Date = Some (js ''01-05-2025''), Total_Amount_Due = Some (js ''100.00''),
                    Bank_Name = Some (js ''X'')\<rparr>"

definition storeWithPaid :: objectStore where
  "storeWithPaid =
     updateMatchingRecord DbOk (js ''100'')
       (storeAfter emptyStore
          (savePaymentSummaryToIndexedDB DbOk exampleData (js ''2025-04-01T10:00:00.000Z'')
             emptyStore))"

definition storeLater :: objectStore where
  "storeLater =
     updateMatchingRecord DbOk (js ''100.004'')
       (storeAfter storeWithPaid
          (savePaymentSummaryToIndexedDB_background DbOk exampleData
             (js ''2025-04-02T10:00:00.000Z'') storeWithPaid))"

definition paidRecord :: PaymentSummary where
  "paidRecord = \<lparr>id' = 1, DueDate = Some (js ''01-05-2025''), totalAmountDue = Some (js ''100.00''),
      BankName = Some (js ''X''), paymentStatus = js ''paid'',
      summaryTimestamp = js ''2025-04-01T10:00:00.000Z''\<rparr>"

section \<open>Response Parser\<close>

text \<open>
  \<^verbatim>\<open>curMessage.split(marker)[0]\<close> for a non-empty marker: the text before the first
  occurrence of the marker, the whole text when there is none.
\<close>

fun beforeFirst :: "jsstring \<Rightarrow> jsstring \<Rightarrow> jsstring" where
  "beforeFirst sep [] = []"
| "beforeFirst sep (c # cs) =
     (if take (length sep) (c # cs) = sep then [] else c # beforeFirst sep cs)"

text \<open>
  The values of \<^verbatim>\<open>JSON.parse\<close>. An object is the list of its properties in creation order;
  a repeated key overwrites the value of the property created first. (JavaScript lists
  keys that are array indices before the others; the keys this program reads are not.)
\<close>

datatype json =
    JNull | JBool bool | JNumber number | JString jsstring
  | JArray "json list" | JObject "(jsstring \<times> json) list"

fun setProperty :: "jsstring \<Rightarrow> json \<Rightarrow> (jsstring \<times> json) list \<Rightarrow> (jsstring \<times> json) list" where
  "setProperty k v [] = [(k, v)]"
| "setProperty k v ((k', v') # kvs) =
     (if k' = k then (k, v) # kvs else (k', v') # setProperty k v kvs)"

definition makeObject :: "(jsstring \<times> json) list \<Rightarrow> json" where
  "makeObject members = JObject (foldl (\<lambda>obj kv. setProperty (fst kv) (snd kv) obj) [] members)"

text \<open>The JSON grammar (ECMA-404), as \<^verbatim>\<open>JSON.parse\<close> reads it. White space is space, tab,
  line feed and carriage return only.\<close>

definition isJsonWs :: "nat \<Rightarrow> bool" where
  "isJsonWs c \<longleftrightarrow> c = 32 \<or> c = 9 \<or> c = 10 \<or> c = 13"

definition skipWs :: "jsstring \<Rightarrow> jsstring" where
  "skipWs s = dropWhile isJsonWs s"

definition hexDigit :: "nat \<Rightarrow> nat option" where
  "hexDigit c =
     (if 48 \<le> c \<and> c \<le> 57 then Some (c - 48)
      else if 97 \<le> c \<and> c \<le> 102 then Some (c - 87)
      else if 65 \<le> c \<and> c \<le> 70 then Some (c - 55)
      else None)"

definition escapeChar :: "nat \<Rightarrow> nat option" where
  "escapeChar c =
     (if c = 34 \<or> c = 92 \<or> c = 47 then Some c
      else if c = 98 then Some 8
      else if c = 102 then Some 12
      else if c = 110 then Some 10
      else if c = 114 then Some 13
      else if c = 116 then Some 9
      else None)"

text \<open>A string after its opening quote: its code units and the text after the closing
  quote. A control character, an unknown escape or a missing closing quote is an error.\<close>

fun stringBody :: "jsstring \<Rightarrow> (jsstring \<times> jsstring) option" where
  "stringBody [] = None"
| "stringBody (c # cs) =
     (if c = 34 then Some ([], cs)
      else if c = 92 then
        (case cs of
           [] \<Rightarrow> None
         | e # r \<Rightarrow>
             if e = 117 then
               (case r of
                  h1 # h2 # h3 # h4 # r' \<Rightarrow>
                    (case (hexDigit h1, hexDigit h2, hexDigit h3, hexDigit h4) of
                       (Some a, Some b, Some c', Some d) \<Rightarrow>
                         map_option (apfst ((#) (4096 * a + 256 * b + 16 * c' + d))) (stringBody r')
                     | _ \<Rightarrow> None)
                | _ \<Rightarrow> None)
             else
               (case escapeChar e of
                  None \<Rightarrow> None
                | Some x \<Rightarrow> map_option (apfst ((#) x)) (stringBody r)))
      else if c < 32 then None
      else map_option (apfst ((#) c)) (stringBody cs))"

text \<open>A number: an optional minus, an integer part without a leading zero, an optional
  fraction and an optional exponent, each with at least one digit.\<close>

definition jsonNumber :: "jsstring \<Rightarrow> (number \<times> jsstring) option" where
  "jsonNumber s =
     (let neg = (take 1 s = [45]);
          s1 = (if neg then drop 1 s else s);
          ip = takeWhile isDigit s1;
          r1 = dropWhile isDigit s1;
          hasFrac = (take 1 r1 = [46]);
          fp = (if hasFrac then takeWhile isDigit (drop 1 r1) else []);
          r2 = (if hasFrac then dropWhile isDigit (drop 1 r1) else r1);
          hasExp = (take 1 r2 = [101] \<or> take 1 r2 = [69]);
          signed = signOf (drop 1 r2);
          ds = (if hasExp then takeWhile isDigit (snd signed) else []);
          r3 = (if hasExp then dropWhile isDigit (snd signed) else r2);
          ex = (if fst signed then - int (digitsValue ds) else int (digitsValue ds))
      in if ip = [] \<or> (1 < length ip \<and> take 1 ip = [48]) \<or> (hasFrac \<and> fp = []) \<or> (hasExp \<and> ds = [])
         then None
         else Some (decimalValue neg (digitsValue (ip @ fp)) (ex - int (length fp)), r3))"

text \<open>
  Values, array elements and object members. Each function gets the text at the first
  code unit of what it reads and returns the value with the text after it. The first
  argument bounds the number of nested calls; \<open>JSON_parse\<close> starts with two calls for every
  code unit of the text.
\<close>

fun parseValue :: "nat \<Rightarrow> jsstring \<Rightarrow> (json \<times> jsstring) option"
  and parseElements :: "nat \<Rightarrow> jsstring \<Rightarrow> (json list \<times> jsstring) option"
  and parseMembers :: "nat \<Rightarrow> jsstring \<Rightarrow> ((jsstring \<times> json) list \<times> jsstring) option"
where
  "parseValue 0 s = None"
| "parseValue (Suc n) s =
     (case s of
        [] \<Rightarrow> None
      | c # r \<Rightarrow>
          if c = 123 then
            (case skipWs r of
               [] \<Rightarrow> None
             | d # r' \<Rightarrow>
                 if d = 125 then Some (JObject [], r')
                 else map_option (apfst makeObject) (parseMembers n (d # r')))
          else if c = 91 then
            (case skipWs r of
               [] \<Rightarrow> None
             | d # r' \<Rightarrow>
                 if d = 93 then Some (JArray [], r')
                 else map_option (apfst JArray) (parseElements n (d # r')))
          else if c = 34 then map_option (apfst JString) (stringBody r)
          else if take 4 s = js ''true'' then Some (JBool True, drop 4 s)
          else if take 5 s = js ''false'' then Some (JBool False, drop 5 s)
          else if take 4 s = js ''null'' then Some (JNull, drop 4 s)
          else map_option (apfst JNumber) (jsonNumber s))"
| "parseElements 0 s = None"
| "parseElements (Suc n) s =
     (case parseValue n s of
        None \<Rightarrow> None
      | Some (v, r) \<Rightarrow>
          (case skipWs r of
             [] \<Rightarrow> None
           | c # r' \<Rightarrow>
               if c = 93 then Some ([v], r')
               else if c = 44 then map_option (apfst ((#) v)) (parseElements n (skipWs r'))
               else None))"
| "parseMembers 0 s = None"
| "parseMembers (Suc n) s =
     (case s of
        [] \<Rightarrow> None
      | c # r \<Rightarrow>
          if c \<noteq> 34 then None
          else
            (case stringBody r of
               None \<Rightarrow> None
             | Some (k, r1) \<Rightarrow>
                 (case skipWs r1 of
                    [] \<Rightarrow> None
                  | d # r2 \<Rightarrow>
                      if d \<noteq> 58 then None
                      else
                        (case parseValue n (skipWs r2) of
                           None \<Rightarrow> None
                         | Some (v, r3) \<Rightarrow>
                             (case skipWs r3 of
                                [] \<Rightarrow> None
                              | e # r4 \<Rightarrow>
                                  if e = 125 then Some ([(k, v)], r4)
                                  else if e = 44 then
                                    map_option (apfst ((#) (k, v))) (parseMembers n (skipWs r4))
                                  else None)))))"

text \<open>\<^verbatim>\<open>JSON.parse(text)\<close>: one value between white space, or a \<^verbatim>\<open>SyntaxError\<close>.\<close>

definition JSON_parse :: "jsstring \<Rightarrow> error + json" where
  "JSON_parse s =
     (case parseValue (2 * length s + 2) (skipWs s) of
        None \<Rightarrow> Inl SyntaxError
      | Some (v, r) \<Rightarrow> if skipWs r = [] then Inr v else Inl SyntaxError)"

text \<open>
  The response-parsing step of \<^verbatim>\<open>summarizeEmail\<close> (popup.ts 313-322, background script
  316-323) and of \<^verbatim>\<open>handlePaymentSuccess\<close> (background script 567-574): the text before the
  marker phrase, trimmed, parsed; a parse error ends the run.
\<close>

definition parseResponse :: "jsstring \<Rightarrow> error + json" where
  "parseResponse curMessage =
     JSON_parse (trim (beforeFirst (js ''This JSON format is provided for you'') curMessage))"

section \<open>Orchestrator\<close>

subsection \<open>Engine-readiness wait\<close>

text \<open>
  The two globals of a script: whether \<^verbatim>\<open>engine\<close> is set (non-null), and \<^verbatim>\<open>chatHistory\<close>, a
  list of messages with a role and a content.
\<close>

record message =
  role :: jsstring
  content :: jsstring

record state =
  engine :: bool
  chatHistory :: "message list"

text \<open>
  \<^verbatim>\<open>while (!engine && attempts < 10) { await sleep(1000); attempts++; }\<close> (popup.ts 386-390,
  background script 174-178). While the function sleeps, an initialization started
  elsewhere may set \<^verbatim>\<open>engine\<close>; \<open>engineAt k\<close> says whether \<^verbatim>\<open>engine\<close> is set at the test made
  after \<open>k\<close> sleeps. The result is the final value of \<^verbatim>\<open>attempts\<close>, the number of sleeps.
\<close>

function pollEngine :: "(nat \<Rightarrow> bool) \<Rightarrow> nat \<Rightarrow> nat" where
  "pollEngine engineAt attempts =
     (if \<not> engineAt attempts \<and> attempts < 10 then pollEngine engineAt (attempts + 1)
      else attempts)"
  by pat_completeness auto
termination
  by (relation "measure (\<lambda>(engineAt, attempts). 10 - attempts)") auto

declare pollEngine.simps [simp del]

text \<open>
  What a call of \<^verbatim>\<open>waitForEngine\<close> did: the sleeps, the milliseconds asked of \<^verbatim>\<open>sleep\<close>, the
  calls of \<^verbatim>\<open>initializeEngine\<close>, and the final report (\<^verbatim>\<open>Engine is ready!\<close> or
  \<^verbatim>\<open>Engine failed to initialize.\<close>).
\<close>

datatype report = EngineReady | EngineFailed

record waitLog =
  polls :: nat
  sleptMs :: nat
  initializations :: nat
  reported :: report

text \<open>
  What the tests of \<^verbatim>\<open>waitForEngine\<close> see: the first one, made before any sleep, sees the
  global as it is at the call; the test after \<open>k\<close> sleeps sees \<open>engineAt k\<close>.
\<close>

definition engineSeen :: "state \<Rightarrow> (nat \<Rightarrow> bool) \<Rightarrow> nat \<Rightarrow> bool" where
  "engineSeen st engineAt k = (if k = 0 then engine st else engineAt k)"

text \<open>
  \<^verbatim>\<open>waitForEngine\<close> (popup.ts 384-402, background script 172-188). The test after the loop
  sees what the last test of the loop saw. When the engine is still unset there, the
  function awaits \<^verbatim>\<open>initializeEngine()\<close>, which awaits the loader \<^verbatim>\<open>CreateMLCEngine\<close> with no
  timeout (popup.ts 21-31, background script 190-202). \<open>afterInit\<close> is what that await
  gives: \<open>Some b\<close> when it returns, \<open>b\<close> saying whether \<^verbatim>\<open>engine\<close> is set then (a loader that
  throws is caught and leaves it unset), and \<open>None\<close> when the loader never settles. In that
  case \<^verbatim>\<open>waitForEngine\<close> never returns, and its result is \<open>None\<close>.
\<close>

definition waitForEngine ::
    "(nat \<Rightarrow> bool) \<Rightarrow> bool option \<Rightarrow> state \<Rightarrow> (state \<times> waitLog) option" where
  "waitForEngine engineAt afterInit st =
     (let attempts = pollEngine (engineSeen st engineAt) 0
      in if \<not> engineSeen st engineAt attempts
         then (case afterInit of
                 None \<Rightarrow> None
               | Some engine' \<Rightarrow>
                   Some (st\<lparr>engine := engine'\<rparr>,
                         \<lparr>polls = attempts, sleptMs = 1000 * attempts, initializations = 1,
                          reported = (if engine' then EngineReady else EngineFailed)\<rparr>))
         else Some (st\<lparr>engine := True\<rparr>,
                    \<lparr>polls = attempts, sleptMs = 1000 * attempts, initializations = 0,
                     reported = EngineReady\<rparr>))"

text \<open>An engine that is never seen set, and a state without engine and without history.\<close>

definition neverReady :: "nat \<Rightarrow> bool" where
  "neverReady k = False"

definition unreadyState :: state where
  "unreadyState = \<lparr>engine = False, chatHistory = []\<rparr>"

subsection \<open>Prompt Builder\<close>













subsection \<open>Completion requests\<close>








section \<open>Properties\<close>

lemma normalizeCurrencySymbols_head:
  "normalizeCurrencySymbols (x # xs) = y # ys \<Longrightarrow> y = x \<or> y = 0x20B9"
  by (induction "x # xs" rule: normalizeCurrencySymbols.induct) (auto split: if_splits)

lemma normalizeCurrencySymbols_nonempty:
  "normalizeCurrencySymbols (x # xs) \<noteq> []"
  by (cases "x # xs" rule: normalizeCurrencySymbols.cases) (auto split: if_splits)

lemma normalizeCurrencySymbols_other:
  "x \<noteq> 0xE2 \<Longrightarrow> normalizeCurrencySymbols (x # xs) = x # normalizeCurrencySymbols xs"
  by (cases "x # xs" rule: normalizeCurrencySymbols.cases) auto

lemma normalizeCurrencySymbols_idem_aux:
  "normalizeCurrencySymbols (normalizeCurrencySymbols x) = normalizeCurrencySymbols x"
proof (induction x rule: normalizeCurrencySymbols.induct)
  case (1 a b c rest)
  show ?case
  proof (cases "a = 0xE2 \<and> b = 0x82 \<and> c = 0xB9")
    case True
    then show ?thesis using 1 by (simp add: normalizeCurrencySymbols_other)
  next
    case False
    note nomatch = this
    have IH: "normalizeCurrencySymbols (normalizeCurrencySymbols (b # c # rest)) =
              normalizeCurrencySymbols (b # c # rest)"
      using 1(2) False by blast
    obtain y ys where ys: "normalizeCurrencySymbols (b # c # rest) = y # ys"
      using normalizeCurrencySymbols_nonempty [of b "c # rest"] by (cases "normalizeCurrencySymbols (b # c # rest)") auto
    have y: "y = b \<or> y = 0x20B9" using normalizeCurrencySymbols_head [OF ys] .
    have step: "normalizeCurrencySymbols (a # y # ys) = a # normalizeCurrencySymbols (y # ys)"
    proof (cases "a = 0xE2 \<and> y = 0x82")
      case False
      then show ?thesis
        by (cases "a # y # ys" rule: normalizeCurrencySymbols.cases) auto
    next
      case True
      with y have b: "b = 0x82" by auto
      with nomatch True have c: "c \<noteq> 0xB9" by auto
      have ys': "normalizeCurrencySymbols (c # rest) = ys"
        using ys b by (simp add: normalizeCurrencySymbols_other)
      obtain z zs where zs: "ys = z # zs"
        using normalizeCurrencySymbols_nonempty [of c rest] ys' by (cases ys) auto
      have "z = c \<or> z = 0x20B9"
        using normalizeCurrencySymbols_head [of c rest z zs] ys' zs by simp
      then show ?thesis using c True zs by auto
    qed
    have unfold: "normalizeCurrencySymbols (a # b # c # rest) = a # y # ys"
      using nomatch ys by auto
    have "normalizeCurrencySymbols (a # y # ys) = a # y # ys"
      using step IH ys by simp
    then show ?thesis by (simp only: unfold)
  qed
qed simp_all

lemmas extractor_defs =
  js_def isWhiteSpace_def isWordChar_def trim_def upperAscii_def testCI_def markerMatch_def
  expectedKeys_def summaryLines_def extractFields_def parseBankSummary_def Let_def

subsection \<open>Text Normalizer\<close>

text \<open>
  C3 (idempotent normalization): for every text \<open>x\<close>, normalizing twice is the same as
  normalizing once.
\<close>

theorem normalizeCurrencySymbols_idempotent:
  "normalizeCurrencySymbols (normalizeCurrencySymbols x) = normalizeCurrencySymbols x"
  by (rule normalizeCurrencySymbols_idem_aux)

subsection \<open>Heuristic Summary Extractor\<close>

lemma startsWithCI_take:
  "startsWithCI pat text \<longleftrightarrow>
     map upperAscii (take (length pat) text) = map upperAscii pat"
  by (induction pat "text" rule: startsWithCI.induct) auto

lemma searchCI_None:
  "searchCI pat text = None \<longleftrightarrow> (\<forall>i \<le> length text. \<not> startsWithCI pat (drop i text))"
proof (induction "text")
  case Nil
  then show ?case by simp
next
  case (Cons c cs)
  have "(\<forall>i \<le> length (c # cs). \<not> startsWithCI pat (drop i (c # cs))) \<longleftrightarrow>
        \<not> startsWithCI pat (c # cs) \<and> (\<forall>i \<le> length cs. \<not> startsWithCI pat (drop i cs))"
    (is "?L \<longleftrightarrow> ?R")
  proof
    assume l: ?L
    have "\<not> startsWithCI pat (c # cs)" using l [rule_format, of 0] by simp
    moreover have "\<not> startsWithCI pat (drop i cs)" if "i \<le> length cs" for i
      using l [rule_format, of "Suc i"] that by simp
    ultimately show ?R by blast
  next
    assume r: ?R
    show ?L
    proof (intro allI impI)
      fix i assume "i \<le> length (c # cs)"
      then show "\<not> startsWithCI pat (drop i (c # cs))"
        using r by (cases i) auto
    qed
  qed
  with Cons show ?case by auto
qed

lemma searchCI_None_containsCI:
  "searchCI pat text = None \<longleftrightarrow> \<not> containsCI pat text"
  unfolding searchCI_None containsCI_def list_ex_iff startsWithCI_take
  by (auto simp: less_Suc_eq_le)

text \<open>
  C4 (note truncation): on the text \<open>Summary:\<close>, \<open>Total Amount Due\<close>, \<open>500\<close>,
  \<open>Note: disclaimers here\<close>, \<open>Payment Due Date\<close>, \<open>01-01-2025\<close> (one per line) the
  extractor returns the single field Total Amount Due = 500; the region is cut at the
  word \<open>Note\<close>, so there is no Payment Due Date field.
\<close>

theorem parseBankSummary_note_truncation:
  "parseBankSummary
     (joinLF [js ''Summary:'', js ''Total Amount Due'', js ''500'', js ''Note: disclaimers here'',
              js ''Payment Due Date'', js ''01-01-2025''])
     = [(js ''Total Amount Due'', js ''500'')]
   \<and> map_of (parseBankSummary
        (joinLF [js ''Summary:'', js ''Total Amount Due'', js ''500'', js ''Note: disclaimers here'',
                 js ''Payment Due Date'', js ''01-01-2025'']))
       (js ''Payment Due Date'') = None"
  by (simp add: extractor_defs)

text \<open>
  C5 (value-skip correctness): on the summary section \<open>Total Amount Due\<close>, an empty line,
  \<open>1234.56\<close>, \<open>Rewards Earned\<close>, \<open>10\<close>, each ended by a line feed, extraction yields
  exactly Total Amount Due = 1234.56 and Rewards Earned = 10, both from the section alone
  (lines 201-232) and from an email whose text after the marker \<open>Summary:\<close> is that section.
\<close>

theorem extractFields_value_skip:
  "extractFields (joinLF [js ''Total Amount Due'', [], js ''1234.56'', js ''Rewards Earned'', js ''10'', []])
     = [(js ''Total Amount Due'', js ''1234.56''), (js ''Rewards Earned'', js ''10'')]
   \<and> parseBankSummary
       (joinLF [js ''Summary:'', js ''Total Amount Due'', [], js ''1234.56'', js ''Rewards Earned'',
                js ''10'', []])
     = [(js ''Total Amount Due'', js ''1234.56''), (js ''Rewards Earned'', js ''10'')]"
  by (simp add: extractor_defs)

text \<open>
  C6 (no marker, no crash): for every text with no case-insensitive occurrence of the token
  \<open>summary\<close> the extractor returns the empty mapping. The source has no statement that can
  throw on a string argument, so the model has no error value, and \<open>parseBankSummary\<close> is a
  total function: the equation below is its result on every such text.
\<close>

theorem parseBankSummary_no_marker:
  "\<not> containsCI (js ''summary'') emailText \<Longrightarrow> parseBankSummary emailText = []"
  using searchCI_None_containsCI [of "js ''summary''" emailText]
  by (simp add: parseBankSummary_def markerMatch_def)

theorem parseBankSummary_no_marker_witness:
  "\<not> containsCI (js ''summary'') (joinLF [js ''Total Amount Due'', js ''500''])
   \<and> parseBankSummary (joinLF [js ''Total Amount Due'', js ''500'']) = []"
proof -
  have h: "\<not> containsCI (js ''summary'') (joinLF [js ''Total Amount Due'', js ''500''])"
    by code_simp
  show ?thesis using h parseBankSummary_no_marker [OF h] by simp
qed

section \<open>Record Store\<close>

subsection \<open>Keys\<close>

lemma save_result:
  "savePaymentSummaryToIndexedDB db pd now s = Inr s' \<Longrightarrow>
     s' = s \<or> (\<exists>due amt bank. s' = add due amt bank (js ''unpaid'') now s)"
  by (auto simp: savePaymentSummaryToIndexedDB_def Let_def
           split: if_splits option.splits sum.splits bool.splits)

lemma save_background_result:
  "savePaymentSummaryToIndexedDB_background db pd now s = Inr s' \<Longrightarrow>
     (\<exists>due amt bank. s' = add due amt bank (js ''unpaid'') now s)"
  by (auto simp: savePaymentSummaryToIndexedDB_background_def split: if_splits)

lemma insert_cases:
  "storeAfter s (savePaymentSummaryToIndexedDB db pd now s) = s \<or>
   (\<exists>due amt bank. storeAfter s (savePaymentSummaryToIndexedDB db pd now s)
       = add due amt bank (js ''unpaid'') now s)"
  using save_result [of db pd now s]
  by (cases "savePaymentSummaryToIndexedDB db pd now s") (auto simp: storeAfter_def)

lemma insert_background_cases:
  "storeAfter s (savePaymentSummaryToIndexedDB_background db pd now s) = s \<or>
   (\<exists>due amt bank. storeAfter s (savePaymentSummaryToIndexedDB_background db pd now s)
       = add due amt bank (js ''unpaid'') now s)"
  using save_background_result [of db pd now s]
  by (cases "savePaymentSummaryToIndexedDB_background db pd now s") (auto simp: storeAfter_def)

lemma storeInv_add: "storeInv s \<Longrightarrow> storeInv (add due amt bank status stamp s)"
  by (auto simp: storeInv_def add_def sorted_wrt_append)

lemma putRecord_keeps: "r \<in> set rs \<Longrightarrow> id' r \<noteq> id' x \<Longrightarrow> r \<in> set (putRecord x rs)"
  by (induction rs) auto

lemma putRecord_ids:
  "sorted_wrt (<) (map id' rs) \<Longrightarrow> id' x \<in> id' ` set rs \<Longrightarrow>
     map id' (putRecord x rs) = map id' rs"
  by (induction rs) auto

lemma markPaid_ids:
  assumes "storeInv st" "id' x \<in> id' ` set (records st)"
  shows "map id' (records (markPaid a x st)) = map id' (records st)
         \<and> keyGenerator (markPaid a x st) = keyGenerator st"
  using assms
  by (auto simp: markPaid_def Let_def put_def storeInv_def putRecord_ids max_def)

lemma fold_markPaid_ids:
  "storeInv st \<Longrightarrow> id' ` set xs \<subseteq> id' ` set (records st) \<Longrightarrow>
     map id' (records (fold (markPaid a) xs st)) = map id' (records st)
     \<and> keyGenerator (fold (markPaid a) xs st) = keyGenerator st"
proof (induction xs arbitrary: st)
  case Nil
  then show ?case by simp
next
  case (Cons x xs)
  have x: "id' x \<in> id' ` set (records st)" using Cons.prems by auto
  note m = markPaid_ids [OF Cons.prems(1) x, of a]
  have inv: "storeInv (markPaid a x st)"
    using Cons.prems(1) m unfolding storeInv_def
    by (metis (no_types, lifting) image_iff list.set_map)
  have sub: "id' ` set xs \<subseteq> id' ` set (records (markPaid a x st))"
    using Cons.prems(2) m by (metis list.set_map set_subset_Cons subset_trans image_mono)
  show ?case using Cons.IH [OF inv sub] m by simp
qed

lemma storeInv_update: "storeInv s \<Longrightarrow> storeInv (updateMatchingRecord db a s)"
  using fold_markPaid_ids [of s "records s" a]
  unfolding storeInv_def updateMatchingRecord_def
  by (auto simp: storeInv_def) (metis image_iff list.set_map)+

lemma storeInv_step: "step s s' \<Longrightarrow> storeInv s \<Longrightarrow> storeInv s'"
proof (induction rule: step.induct)
  case (insert s db pd now)
  then show ?case
    using insert_cases [of s db pd now] by (auto simp: storeInv_add)
next
  case (insert_background s db pd now)
  then show ?case
    using insert_background_cases [of s db pd now] by (auto simp: storeInv_add)
next
  case (update s db amount)
  then show ?case by (rule storeInv_update)
qed

lemma storeInv_reachable: "reachable s \<Longrightarrow> storeInv s"
proof (induction rule: reachable.induct)
  case initial
  show ?case by (simp add: storeInv_def emptyStore_def)
next
  case (after s s')
  then show ?case by (blast intro: storeInv_step)
qed

subsection \<open>Paid records stay\<close>

lemma fold_markPaid_keeps:
  "r \<in> set (records st) \<Longrightarrow> paymentStatus r = js ''paid'' \<Longrightarrow>
   (\<forall>x \<in> set xs. paymentStatus x \<noteq> js ''paid'' \<longrightarrow> id' x \<noteq> id' r) \<Longrightarrow>
   r \<in> set (records (fold (markPaid a) xs st))"
proof (induction xs arbitrary: st)
  case Nil
  then show ?case by simp
next
  case (Cons x xs)
  have "r \<in> set (records (markPaid a x st))"
    using Cons.prems by (auto simp: markPaid_def Let_def put_def intro: putRecord_keeps)
  then show ?case using Cons by simp
qed

lemma update_keeps_paid:
  assumes "storeInv s" "r \<in> set (records s)" "paymentStatus r = js ''paid''"
  shows "r \<in> set (records (updateMatchingRecord db a s))"
proof -
  have d: "distinct (map id' (records s))"
    using assms(1) unfolding storeInv_def by (simp add: strict_sorted_iff)
  have "id' x \<noteq> id' r" if "x \<in> set (records s)" "paymentStatus x \<noteq> js ''paid''" for x
    using d that assms(2,3) by (metis distinct_map inj_onD)
  then show ?thesis
    using fold_markPaid_keeps [OF assms(2,3), of "records s" a] assms(2)
    by (auto simp: updateMatchingRecord_def)
qed

lemma step_keeps_paid:
  assumes "step s s'" "storeInv s" "r \<in> set (records s)" "paymentStatus r = js ''paid''"
  shows "r \<in> set (records s')"
  using assms
proof (induction rule: step.induct)
  case (insert s db pd now)
  then show ?case
    using insert_cases [of s db pd now] by (auto simp: add_def)
next
  case (insert_background s db pd now)
  then show ?case
    using insert_background_cases [of s db pd now] by (auto simp: add_def)
next
  case (update s db amount)
  then show ?case by (simp add: update_keeps_paid)
qed

lemma steps_keep_paid:
  "step\<^sup>*\<^sup>* s s' \<Longrightarrow> storeInv s \<Longrightarrow> r \<in> set (records s) \<Longrightarrow> paymentStatus r = js ''paid'' \<Longrightarrow>
     r \<in> set (records s') \<and> storeInv s'"
  by (induction rule: rtranclp_induct) (auto intro: step_keeps_paid storeInv_step)

text \<open>The reconciliation writes nothing but records of the snapshot that were not paid,
  with their status set to \<open>paid\<close>.\<close>

lemma putRecord_set: "set (putRecord x rs) \<subseteq> insert x (set rs)"
  by (induction rs) auto

lemma fold_markPaid_writes:
  "set (records (fold (markPaid a) xs st))
     \<subseteq> set (records st) \<union>
       {x\<lparr>paymentStatus := js ''paid''\<rparr> | x. x \<in> set xs \<and> paymentStatus x \<noteq> js ''paid''}"
proof (induction xs arbitrary: st)
  case Nil
  then show ?case by simp
next
  case (Cons x xs)
  have one: "set (records (markPaid a x st))
      \<subseteq> set (records st) \<union> {y\<lparr>paymentStatus := js ''paid''\<rparr> | y. y = x \<and> paymentStatus y \<noteq> js ''paid''}"
    using putRecord_set [of "x\<lparr>paymentStatus := js ''paid''\<rparr>" "records st"]
    by (auto simp: markPaid_def Let_def put_def)
  show ?case
    using Cons.IH [of "markPaid a x st"] one by auto
qed

lemma updateMatchingRecord_writes_only_paid:
  "set (records (updateMatchingRecord db a s))
     \<subseteq> set (records s) \<union>
       {x\<lparr>paymentStatus := js ''paid''\<rparr> | x. x \<in> set (records s) \<and> paymentStatus x \<noteq> js ''paid''}"
  using fold_markPaid_writes [of a "records s" s]
  by (auto simp: updateMatchingRecord_def)

text \<open>
  C10 (paid status is monotone): in a reachable store, a record whose status is \<open>paid\<close> is
  still in the store, as it is, after any further operations of the system, and it is the
  only record under its key; so no operation sets its status back to \<open>unpaid\<close>.
\<close>

theorem paid_status_monotone:
  assumes "reachable s" and "step\<^sup>*\<^sup>* s s'"
    and "r \<in> set (records s)" and "paymentStatus r = js ''paid''"
  shows "r \<in> set (records s') \<and> (\<forall>r' \<in> set (records s'). id' r' = id' r \<longrightarrow> r' = r)"
proof -
  have keep: "r \<in> set (records s')" and inv: "storeInv s'"
    using steps_keep_paid [OF assms(2) storeInv_reachable [OF assms(1)] assms(3,4)] by auto
  have "distinct (map id' (records s'))"
    using inv unfolding storeInv_def by (simp add: strict_sorted_iff)
  then have "\<forall>r' \<in> set (records s'). id' r' = id' r \<longrightarrow> r' = r"
    using keep by (metis distinct_map inj_onD)
  with keep show ?thesis by blast
qed

lemma storeWithPaid_value: "storeWithPaid = \<lparr>records = [paidRecord], keyGenerator = 2\<rparr>"
  by code_simp

theorem paid_status_monotone_witness:
  "reachable storeWithPaid \<and> step\<^sup>*\<^sup>* storeWithPaid storeLater
   \<and> paidRecord \<in> set (records storeWithPaid) \<and> paymentStatus paidRecord = js ''paid''
   \<and> paidRecord \<in> set (records storeLater)
   \<and> list_all (\<lambda>r'. id' r' = id' paidRecord \<longrightarrow> r' = paidRecord) (records storeLater)"
proof -
  let ?s1 = "storeAfter emptyStore
      (savePaymentSummaryToIndexedDB DbOk exampleData (js ''2025-04-01T10:00:00.000Z'') emptyStore)"
  let ?s3 = "storeAfter storeWithPaid
      (savePaymentSummaryToIndexedDB_background DbOk exampleData (js ''2025-04-02T10:00:00.000Z'')
         storeWithPaid)"
  have "reachable ?s1" by (rule reachable.after [OF reachable.initial step.insert])
  moreover have "step ?s1 storeWithPaid" unfolding storeWithPaid_def by (rule step.update)
  ultimately have r: "reachable storeWithPaid" by (rule reachable.after)
  have "step storeWithPaid ?s3" by (rule step.insert_background)
  moreover have "step ?s3 storeLater" unfolding storeLater_def by (rule step.update)
  ultimately have s: "step\<^sup>*\<^sup>* storeWithPaid storeLater" by (meson rtranclp.simps)
  have m: "paidRecord \<in> set (records storeWithPaid)" by (simp add: storeWithPaid_value)
  have p: "paymentStatus paidRecord = js ''paid''" by (simp add: paidRecord_def)
  show ?thesis using r s m p paid_status_monotone [OF r s m p] by (simp add: list_all_iff)
qed

subsection \<open>Duplicate check\<close>

lemma stripCommas_idem: "stripCommas (stripCommas s) = stripCommas s"
  by (simp add: stripCommas_def)

lemma someDuplicate_result:
  "\<forall>r \<in> set rs. totalAmountDue r \<noteq> None \<Longrightarrow>
     someDuplicate newTotal newDue rs = Inr ((Some newTotal, newDue) \<in> dedupKey ` set rs)"
  by (induction rs) (auto simp: dedupKey_def)

lemma save_inserted:
  "savePaymentSummaryToIndexedDB db pd now s = Inr s' \<Longrightarrow>
     s' = s \<or>
     (\<exists>amt bank. someDuplicate (stripCommas amt) (Due_Date pd) (records s) = Inr False \<and>
        s' = add (Due_Date pd) (Some (stripCommas amt)) (Some (trim bank)) (js ''unpaid'') now s)"
  by (auto simp: savePaymentSummaryToIndexedDB_def Let_def
           split: if_splits option.splits sum.splits bool.splits)

lemma dedupInv_insert:
  assumes "dedupInv s"
  shows "dedupInv (storeAfter s (savePaymentSummaryToIndexedDB db pd now s))"
proof (cases "savePaymentSummaryToIndexedDB db pd now s")
  case (Inl e)
  then show ?thesis using assms by (simp add: storeAfter_def)
next
  case (Inr s')
  have strings: "\<forall>r \<in> set (records s). totalAmountDue r \<noteq> None"
    using assms by (simp add: dedupInv_def)
  from save_inserted [OF Inr] show ?thesis
  proof
    assume "s' = s"
    then show ?thesis using Inr assms by (simp add: storeAfter_def)
  next
    assume "\<exists>amt bank. someDuplicate (stripCommas amt) (Due_Date pd) (records s) = Inr False \<and>
        s' = add (Due_Date pd) (Some (stripCommas amt)) (Some (trim bank)) (js ''unpaid'') now s"
    then obtain amt bank where
      fresh: "someDuplicate (stripCommas amt) (Due_Date pd) (records s) = Inr False" and
      s': "s' = add (Due_Date pd) (Some (stripCommas amt)) (Some (trim bank)) (js ''unpaid'') now s"
      by blast
    have new: "(Some (stripCommas amt), Due_Date pd) \<notin> dedupKey ` set (records s)"
      using fresh someDuplicate_result [OF strings, of "stripCommas amt" "Due_Date pd"] by simp
    have "dedupInv s'"
      using assms new unfolding s' dedupInv_def add_def
      by (simp add: dedupKey_def stripCommas_idem)
    then show ?thesis using Inr by (simp add: storeAfter_def)
  qed
qed

lemma dedupInv_insertAll: "dedupInv s \<Longrightarrow> dedupInv (insertAll calls s)"
  by (induction calls arbitrary: s) (auto simp: dedupInv_insert)

text \<open>
  The insert operation of popup.ts and of the later background script keeps the dedup
  invariant: after any run of its calls from the empty store no two records share a dedup
  key, and a call whose key is already stored leaves the store as it is.
\<close>

lemma insertAll_distinct_keys:
  "distinct (map dedupKey (records (insertAll calls emptyStore)))"
  using dedupInv_insertAll [of emptyStore calls] by (simp add: dedupInv_def emptyStore_def)

lemma insert_existing_key_no_insertion:
  assumes "dedupInv s" and "Total_Amount_Due pd = Some amt"
    and "(Some (stripCommas amt), Due_Date pd) \<in> dedupKey ` set (records s)"
  shows "storeAfter s (savePaymentSummaryToIndexedDB db pd now s) = s"
proof -
  have strings: "\<forall>r \<in> set (records s). totalAmountDue r \<noteq> None"
    using assms(1) by (simp add: dedupInv_def)
  show ?thesis
    using assms(2,3) someDuplicate_result [OF strings, of "stripCommas amt" "Due_Date pd"]
    by (auto simp: savePaymentSummaryToIndexedDB_def Let_def storeAfter_def)
qed

text \<open>
  C1 (dedup invariant), at the insert operation of background.ts: two calls with the same
  payment data, from the empty store, leave two records with the same dedup key:
  background.ts 381-397 adds without looking at the stored records.
\<close>

theorem insertAll_background_duplicates:
  "map dedupKey (records (insertAll_background
       [(DbOk, exampleData, js ''2025-04-01T10:00:00.000Z''),
        (DbOk, exampleData, js ''2025-04-01T10:05:00.000Z'')] emptyStore))
   = [(Some (js ''100.00''), Some (js ''01-05-2025'')),
      (Some (js ''100.00''), Some (js ''01-05-2025''))]"
  by (simp add: savePaymentSummaryToIndexedDB_background_def storeAfter_def add_def
        emptyStore_def dedupKey_def stripCommas_def js_def exampleData_def)

subsection \<open>Reconciliation\<close>

lemma amountText_1_234_00: "amountText (js ''1,234.00'') = Text (js ''1.00'')"
  by code_simp

lemma amountText_1234: "amountText (js ''1234'') = Text (js ''1234.00'')"
  by code_simp

text \<open>
  C2 (reconciliation matching), evaluated: in a store with three unpaid records, of amounts
  \<open>1,234.00\<close>, \<open>1234.01\<close> and \<open>1234.00\<close>, the call with the paid amount \<open>1234\<close> marks only
  the third one paid. \<^verbatim>\<open>parseFloat\<close> stops reading \<open>1,234.00\<close> at the comma, so the first
  record is compared as \<open>1.00\<close> and stays unpaid.
\<close>

theorem updateMatchingRecord_comma_amount:
  "map paymentStatus (records (updateMatchingRecord DbOk (js ''1234'')
     \<lparr>records =
        [\<lparr>id' = 1, DueDate = Some (js ''01-05-2025''), totalAmountDue = Some (js ''1,234.00''),
          BankName = Some (js ''X''), paymentStatus = js ''unpaid'',
          summaryTimestamp = js ''2025-04-01T10:00:00.000Z''\<rparr>,
         \<lparr>id' = 2, DueDate = Some (js ''01-06-2025''), totalAmountDue = Some (js ''1234.01''),
          BankName = Some (js ''X''), paymentStatus = js ''unpaid'',
          summaryTimestamp = js ''2025-05-01T10:00:00.000Z''\<rparr>,
         \<lparr>id' = 3, DueDate = Some (js ''01-07-2025''), totalAmountDue = Some (js ''1234.00''),
          BankName = Some (js ''X''), paymentStatus = js ''unpaid'',
          summaryTimestamp = js ''2025-06-01T10:00:00.000Z''\<rparr>],
      keyGenerator = 4\<rparr>))
   = [js ''unpaid'', js ''unpaid'', js ''paid'']"
  by code_simp

section \<open>Response Parser\<close>

text \<open>
  C7 (parse boundary): on the model output made of the JSON object with Due Date
  01-05-2025, Total Amount Due 100.00 and Bank Name X, followed at once by the sentence
  \<open>This JSON format is provided for you for clarity.\<close>, the text kept by the split and the
  trim is the JSON object alone, and the parse succeeds with exactly these three
  properties.
\<close>

theorem parseResponse_boundary:
  \<open>trim (beforeFirst (js ''This JSON format is provided for you'')
      (js ''{"Due Date":"01-05-2025","Total Amount Due":"100.00","Bank Name":"X"}This JSON format is provided for you for clarity.''))
     = js ''{"Due Date":"01-05-2025","Total Amount Due":"100.00","Bank Name":"X"}''
   \<and> parseResponse
      (js ''{"Due Date":"01-05-2025","Total Amount Due":"100.00","Bank Name":"X"}This JSON format is provided for you for clarity.'')
     = Inr (JObject [(js ''Due Date'', JString (js ''01-05-2025'')),
                     (js ''Total Amount Due'', JString (js ''100.00'')),
                     (js ''Bank Name'', JString (js ''X''))])\<close>
  by code_simp

section \<open>Orchestrator\<close>

subsection \<open>Engine-readiness wait\<close>

lemma pollEngine_le: "attempts \<le> 10 \<Longrightarrow> pollEngine engineAt attempts \<le> 10"
proof (induction engineAt attempts rule: pollEngine.induct)
  case (1 engineAt attempts)
  then show ?case by (subst pollEngine.simps) auto
qed

text \<open>Every sleep was made while the engine was seen unset, and a loop that ends before
  the tenth sleep ends because the engine is seen set.\<close>

lemma pollEngine_unready:
  "attempts \<le> k \<Longrightarrow> k < pollEngine engineAt attempts \<Longrightarrow> \<not> engineAt k"
proof (induction engineAt attempts rule: pollEngine.induct)
  case (1 engineAt attempts)
  show ?case
  proof (cases "\<not> engineAt attempts \<and> attempts < 10")
    case True
    then have p: "pollEngine engineAt attempts = pollEngine engineAt (attempts + 1)"
      by (subst pollEngine.simps) simp
    show ?thesis
    proof (cases "k = attempts")
      case True
      with \<open>\<not> engineAt attempts \<and> attempts < 10\<close> show ?thesis by simp
    next
      case False
      with 1 True p show ?thesis by simp
    qed
  next
    case False
    then have "pollEngine engineAt attempts = attempts"
      by (subst pollEngine.simps) auto
    with 1 show ?thesis by simp
  qed
qed

lemma pollEngine_exit:
  "pollEngine engineAt attempts < 10 \<Longrightarrow> engineAt (pollEngine engineAt attempts)"
proof (induction engineAt attempts rule: pollEngine.induct)
  case (1 engineAt attempts)
  show ?case
  proof (cases "\<not> engineAt attempts \<and> attempts < 10")
    case True
    then have p: "pollEngine engineAt attempts = pollEngine engineAt (attempts + 1)"
      by (subst pollEngine.simps) simp
    with 1 True show ?thesis by simp
  next
    case False
    then have "pollEngine engineAt attempts = attempts"
      by (subst pollEngine.simps) auto
    with 1 False show ?thesis by auto
  qed
qed

text \<open>When a test within the first ten sleeps sees the engine set, the loop ends at a test
  that sees it set.\<close>

lemma pollEngine_seen:
  assumes "k \<le> 10" and "engineAt k"
  shows "engineAt (pollEngine engineAt 0)"
proof (cases "pollEngine engineAt 0 < 10")
  case True
  then show ?thesis by (rule pollEngine_exit)
next
  case False
  then have ten: "pollEngine engineAt 0 = 10"
    using pollEngine_le [of 0 engineAt] by simp
  have "\<not> k < 10"
    using pollEngine_unready [of 0 k engineAt] assms(2) ten by auto
  then show ?thesis using assms ten by simp
qed

text \<open>With the engine set at entry there is no sleep and no initialization.\<close>

lemma waitForEngine_ready_at_entry:
  "engine st \<Longrightarrow>
     waitForEngine engineAt afterInit st
       = Some (st, \<lparr>polls = 0, sleptMs = 0, initializations = 0, reported = EngineReady\<rparr>)"
  by (simp add: waitForEngine_def engineSeen_def Let_def pollEngine.simps)

text \<open>The only way not to return: the engine is unset at all eleven tests and the awaited
  initialization never settles.\<close>

lemma waitForEngine_None:
  "waitForEngine engineAt afterInit st = None \<longleftrightarrow>
     afterInit = None \<and> (\<forall>k \<le> 10. \<not> engineSeen st engineAt k)"
proof
  assume n: "waitForEngine engineAt afterInit st = None"
  then have unready: "\<not> engineSeen st engineAt (pollEngine (engineSeen st engineAt) 0)"
    and a: "afterInit = None"
    by (auto simp: waitForEngine_def Let_def split: if_splits option.splits)
  have "\<not> engineSeen st engineAt k" if "k \<le> 10" for k
    using pollEngine_seen [of k "engineSeen st engineAt"] that unready by blast
  with a show "afterInit = None \<and> (\<forall>k \<le> 10. \<not> engineSeen st engineAt k)" by blast
next
  assume r: "afterInit = None \<and> (\<forall>k \<le> 10. \<not> engineSeen st engineAt k)"
  have "pollEngine (engineSeen st engineAt) 0 \<le> 10"
    by (rule pollEngine_le) simp
  with r show "waitForEngine engineAt afterInit st = None"
    by (simp add: waitForEngine_def Let_def)
qed

text \<open>
  C9 (bounded engine-readiness wait), as the claim states it: it fails. With the engine
  never set and a loader that never settles, \<open>waitForEngine\<close> does not return.
\<close>

theorem waitForEngine_never_returns:
  "waitForEngine neverReady None unreadyState = None"
  by (simp add: waitForEngine_None engineSeen_def neverReady_def unreadyState_def)

text \<open>
  C9 (bounded engine-readiness wait), amended: provided the engine is seen set at one of
  the tests or the awaited re-initialization returns, \<open>waitForEngine\<close> returns. It has
  then slept exactly as long as the engine was seen unset, at most 10 times, 1000 ms each
  time; it has called \<open>initializeEngine\<close> once exactly when the engine was still unset
  after the sleeps, and not at all otherwise; the engine is set at the end exactly when
  it was seen set or the re-initialization set it; and the report is ready in that case,
  failed in the other.
\<close>

theorem waitForEngine_returns_bounded:
  assumes "(\<exists>k \<le> 10. engineSeen st engineAt k) \<or> afterInit \<noteq> None"
  shows "\<exists>st' log. waitForEngine engineAt afterInit st = Some (st', log)
     \<and> polls log \<le> 10
     \<and> sleptMs log = 1000 * polls log
     \<and> (\<forall>k < polls log. \<not> engineSeen st engineAt k)
     \<and> (polls log < 10 \<longrightarrow> engineSeen st engineAt (polls log))
     \<and> initializations log = (if engineSeen st engineAt (polls log) then 0 else 1)
     \<and> engine st' = (engineSeen st engineAt (polls log) \<or> afterInit = Some True)
     \<and> chatHistory st' = chatHistory st
     \<and> reported log = (if engine st' then EngineReady else EngineFailed)"
proof -
  let ?seen = "engineSeen st engineAt"
  let ?n = "pollEngine ?seen 0"
  have le: "?n \<le> 10" by (rule pollEngine_le) simp
  have before: "\<forall>k < ?n. \<not> ?seen k"
    using pollEngine_unready [of 0 _ ?seen] by simp
  have exit: "?n < 10 \<longrightarrow> ?seen ?n"
    using pollEngine_exit [of ?seen 0] by simp
  show ?thesis
  proof (cases "?seen ?n")
    case True
    then show ?thesis
      using le before exit by (simp add: waitForEngine_def Let_def)
  next
    case False
    then have "\<not> (\<exists>k \<le> 10. ?seen k)"
      using pollEngine_seen [of _ ?seen] by blast
    with assms obtain b where b: "afterInit = Some b" by auto
    show ?thesis
      using False le before exit b by (simp add: waitForEngine_def Let_def)
  qed
qed

theorem waitForEngine_returns_bounded_witness:
  "((\<exists>k \<le> 10. engineSeen unreadyState neverReady k) \<or> Some False \<noteq> (None :: bool option))
   \<and> (\<exists>st' log. waitForEngine neverReady (Some False) unreadyState = Some (st', log)
     \<and> polls log \<le> 10
     \<and> sleptMs log = 1000 * polls log
     \<and> (\<forall>k < polls log. \<not> engineSeen unreadyState neverReady k)
     \<and> (polls log < 10 \<longrightarrow> engineSeen unreadyState neverReady (polls log))
     \<and> initializations log = (if engineSeen unreadyState neverReady (polls log) then 0 else 1)
     \<and> engine st' = (engineSeen unreadyState neverReady (polls log) \<or> Some False = Some True)
     \<and> chatHistory st' = chatHistory unreadyState
     \<and> reported log = (if engine st' then EngineReady else EngineFailed))
   \<and> waitForEngine neverReady (Some False) unreadyState
       = Some (unreadyState,
               \<lparr>polls = 10, sleptMs = 10000, initializations = 1, reported = EngineFailed\<rparr>)"
proof -
  have h: "(\<exists>k \<le> 10. engineSeen unreadyState neverReady k) \<or> Some False \<noteq> (None :: bool option)"
    by simp
  have v: "waitForEngine neverReady (Some False) unreadyState
       = Some (unreadyState,
               \<lparr>polls = 10, sleptMs = 10000, initializations = 1, reported = EngineFailed\<rparr>)"
    by code_simp
  show ?thesis
    using h v waitForEngine_returns_bounded [OF h]
    by (simp add: engineSeen_def neverReady_def unreadyState_def)
qed

subsection \<open>Completion requests\<close>



end
